theory Spec2Isabelle
  imports Main "HOL-Library.Word"
begin

section \<open>Data model of the precompiles\<close>

text \<open>
  The two precompile surfaces of \<^verbatim>\<open>src/precompiles/ArbAggregator.go\<close>:
  \<^verbatim>\<open>ArbAggregator\<close> (fee-collector registry) and \<^verbatim>\<open>ArbRetryableTx\<close> (retryable
  ticket lifecycle). Go's \<^verbatim>\<open>uint64\<close> is a 64-bit word (\<open>+\<close>, \<open>*\<close> wrap, \<open>div\<close> is
  unsigned), \<^verbatim>\<open>addr\<close> a 20-byte and \<^verbatim>\<open>[32]byte\<close> a 32-byte value compared with
  \<open>=\<close>, and \<^verbatim>\<open>huge\<close> (\<^verbatim>\<open>*big.Int\<close>) an unbounded integer.
\<close>

type_synonym uint64 = "64 word"
type_synonym addr = "160 word"
type_synonym bytes32 = "256 word"
type_synonym huge = int

text \<open>The operations of the external storage that can report a failure.\<close>

datatype store_op =
    OpOpen | OpDelete | OpSizeBytes | OpRenew | OpBeneficiary | OpTimeout
  | OpIncrementTries | OpGetCollector | OpSetCollector

text \<open>
  Error values. \<open>NotFoundError\<close> is the package variable of the source; \<open>ErrorsNew msg\<close>
  is an error made on the spot by \<^verbatim>\<open>errors.New(msg)\<close>; \<open>ErrOutOfGas\<close> is what a burn
  returns; \<open>StoreFailure op\<close> is an error reported by the storage behind operation \<open>op\<close>;
  \<open>NilDereference\<close> stands for the run-time panic of a method call on a nil
  \<^verbatim>\<open>*Retryable\<close>.
\<close>

datatype error =
    NotFoundError
  | ErrorsNew string
  | ErrOutOfGas
  | StoreFailure store_op
  | NilDereference

text \<open>The events of \<^verbatim>\<open>ArbRetryableTx\<close>, with the arguments of the struct's emitters.\<close>

datatype event =
    TicketCreated bytes32
  | LifetimeExtended bytes32 huge
  | RedeemScheduled bytes32 bytes32 uint64 uint64 addr
  | Redeemed bytes32
  | Canceled bytes32

text \<open>
  Modelled from the spec: the ticket record of the external ticket store (package
  \<^verbatim>\<open>arbos/retryables\<close>, not among the sources), with the fields the spec's data model
  names: beneficiary, sizeBytes, numTries, timeout.
\<close>

record ticket =
  beneficiary :: addr
  sizeBytes :: uint64
  numTries :: uint64
  timeout :: uint64

text \<open>
  Modelled from the spec: the chain state reached through \<^verbatim>\<open>c.state\<close>. The ticket store
  is a keyed map from ticket identifier to ticket; the fee registry maps an aggregator
  to its fee collector. Every store operation of the interface returns an error beside
  its result; \<open>fault op\<close> says that the storage behind operation \<open>op\<close> reports a
  failure, which the operation then returns without doing anything.
\<close>

record ArbosState =
  tickets :: "bytes32 \<Rightarrow> ticket option"
  feeCollectors :: "addr \<Rightarrow> addr"
  fault :: "store_op \<Rightarrow> bool"

text \<open>The call context \<^verbatim>\<open>c\<close>: the caller, the gas left and the chain state.\<close>

record ctx =
  caller :: addr
  gasLeft :: uint64
  state :: ArbosState

text \<open>
  The machine \<^verbatim>\<open>evm\<close>: \<open>Time\<close> is \<^verbatim>\<open>evm.Context.Time.Uint64()\<close>, the only way the
  source reads the block time; \<open>logs\<close> are the events emitted so far, oldest first.
\<close>

record mech =
  Time :: uint64
  logs :: "event list"

text \<open>
  Constants and functions that the source takes from outside: the storage access costs
  \<^verbatim>\<open>params.SloadGas\<close> and \<^verbatim>\<open>params.SstoreSetGas\<close> of the execution environment, the
  constant \<^verbatim>\<open>retryables.RetryableLifetimeSeconds\<close>, and the hash function behind the
  redeem identifier (over the 40-byte concatenation of ticket identifier and sequence
  number). They are parameters of the model.
\<close>

record chain_params =
  SloadGas :: uint64
  SstoreSetGas :: uint64
  RetryableLifetimeSeconds :: uint64
  Hash :: "320 word \<Rightarrow> bytes32"

text \<open>
  The struct \<^verbatim>\<open>ArbRetryableTx\<close>: its event cost functions are fields set by whoever
  builds the precompile, so they are parameters here. (The event emitters are modelled
  by \<open>emit\<close> below.)
\<close>

record ArbRetryableTx =
  TicketCreatedGasCost :: "bytes32 \<Rightarrow> uint64"
  LifetimeExtendedGasCost :: "bytes32 \<Rightarrow> huge \<Rightarrow> uint64"
  RedeemScheduledGasCost :: "bytes32 \<Rightarrow> bytes32 \<Rightarrow> uint64 \<Rightarrow> uint64 \<Rightarrow> addr \<Rightarrow> uint64"
  RedeemedGasCost :: "bytes32 \<Rightarrow> uint64"
  CanceledGasCost :: "bytes32 \<Rightarrow> uint64"

section \<open>Collaborators outside the source file\<close>

text \<open>
  Modelled from the spec: \<^verbatim>\<open>c.burn\<close> (the context's method, not among the sources). A
  burn that the remaining gas cannot satisfy fails with out-of-gas and mutates nothing;
  otherwise the amount is taken from the gas left.
\<close>

definition burn :: "ctx \<Rightarrow> uint64 \<Rightarrow> error option \<times> ctx" where
  "burn c amount =
     (if gasLeft c < amount then (Some ErrOutOfGas, c)
      else (None, c\<lparr>gasLeft := gasLeft c - amount\<rparr>))"

text \<open>
  Modelled from the spec: an event emitter of the struct (\<^verbatim>\<open>con.Canceled\<close>,
  \<^verbatim>\<open>con.LifetimeExtended\<close>, \<^verbatim>\<open>con.RedeemScheduled\<close>) records the event in the
  machine's log.
\<close>

definition emit :: "mech \<Rightarrow> event \<Rightarrow> mech" where
  "emit evm e = evm\<lparr>logs := logs evm @ [e]\<rparr>"

text \<open>
  Modelled from the spec: \<^verbatim>\<open>util.WordsForBytes\<close>, \<open>words(n) = ceil(n / 32)\<close>.
\<close>

definition WordsForBytes :: "uint64 \<Rightarrow> uint64" where
  "WordsForBytes nbytes = word_of_nat ((unat nbytes + 31) div 32)"

text \<open>
  Modelled from the spec: \<^verbatim>\<open>retryables.TxIdForRedeemAttempt\<close>, a hash over the
  concatenation of the ticket identifier and the sequence number.
\<close>

definition TxIdForRedeemAttempt :: "chain_params \<Rightarrow> bytes32 \<Rightarrow> uint64 \<Rightarrow> bytes32" where
  "TxIdForRedeemAttempt p ticketId sequenceNum = Hash p (word_cat ticketId sequenceNum)"

text \<open>
  Modelled from the spec: the ticket store's \<open>open(ticketId, now)\<close>. It returns the
  ticket if it exists and has not expired relative to \<open>now\<close> (the ticket is absent once
  the current time passes its timeout), and absent, which is not an error, otherwise.
  The handle it returns is the ticket's key: the handle's methods read and write the
  store.
\<close>

type_synonym Retryable = bytes32

definition OpenRetryable :: "ArbosState \<Rightarrow> bytes32 \<Rightarrow> uint64 \<Rightarrow> error + Retryable option" where
  "OpenRetryable st ticketId now =
     (if fault st OpOpen then Inl (StoreFailure OpOpen)
      else (case tickets st ticketId of
              None \<Rightarrow> Inr None
            | Some t \<Rightarrow> if timeout t < now then Inr None else Inr (Some ticketId)))"

text \<open>
  Modelled from the spec: \<open>delete(ticketId)\<close> removes the ticket unconditionally and
  says whether it existed.
\<close>

definition DeleteRetryable :: "ArbosState \<Rightarrow> bytes32 \<Rightarrow> (error + bool) \<times> ArbosState" where
  "DeleteRetryable st ticketId =
     (if fault st OpDelete then (Inl (StoreFailure OpDelete), st)
      else (Inr (tickets st ticketId \<noteq> None), st\<lparr>tickets := (tickets st)(ticketId := None)\<rparr>))"

text \<open>
  Modelled from the spec: \<open>sizeBytes(ticketId, now)\<close> returns 0 if the ticket is absent
  or expired, else the stored payload size.
\<close>

definition RetryableSizeBytes :: "ArbosState \<Rightarrow> bytes32 \<Rightarrow> uint64 \<Rightarrow> error + uint64" where
  "RetryableSizeBytes st ticketId now =
     (if fault st OpSizeBytes then Inl (StoreFailure OpSizeBytes)
      else (case tickets st ticketId of
              None \<Rightarrow> Inr 0
            | Some t \<Rightarrow> if timeout t < now then Inr 0 else Inr (sizeBytes t)))"

text \<open>
  Modelled from the spec: \<open>renew(ticketId, now, newTimeout, lifetimeWindow)\<close>, the
  store's \<^verbatim>\<open>Keepalive\<close>, sets \<open>timeout = newTimeout\<close> and fails if the ticket is absent.
\<close>

definition RetryableState_Keepalive ::
  "ArbosState \<Rightarrow> bytes32 \<Rightarrow> uint64 \<Rightarrow> uint64 \<Rightarrow> uint64 \<Rightarrow> error option \<times> ArbosState" where
  "RetryableState_Keepalive st ticketId now newTimeout lifetimeWindow =
     (if fault st OpRenew then (Some (StoreFailure OpRenew), st)
      else (case tickets st ticketId of
              None \<Rightarrow> (Some (ErrorsNew ''ticketId not found''), st)
            | Some t \<Rightarrow>
                if timeout t < now then (Some (ErrorsNew ''ticketId not found''), st)
                else (None, st\<lparr>tickets := (tickets st)(ticketId \<mapsto> t\<lparr>timeout := newTimeout\<rparr>)\<rparr>)))"

text \<open>
  Modelled from the spec: the ticket capability \<open>beneficiary()\<close>, \<open>timeout()\<close> and
  \<open>incrementTries()\<close> (which returns the new count). A handle whose ticket is no longer
  stored reports a storage failure.
\<close>

definition Beneficiary :: "ArbosState \<Rightarrow> Retryable \<Rightarrow> error + addr" where
  "Beneficiary st retryable =
     (if fault st OpBeneficiary then Inl (StoreFailure OpBeneficiary)
      else (case tickets st retryable of
              None \<Rightarrow> Inl (StoreFailure OpBeneficiary)
            | Some t \<Rightarrow> Inr (beneficiary t)))"

definition Timeout :: "ArbosState \<Rightarrow> Retryable \<Rightarrow> error + uint64" where
  "Timeout st retryable =
     (if fault st OpTimeout then Inl (StoreFailure OpTimeout)
      else (case tickets st retryable of
              None \<Rightarrow> Inl (StoreFailure OpTimeout)
            | Some t \<Rightarrow> Inr (timeout t)))"

definition IncrementNumTries :: "ArbosState \<Rightarrow> Retryable \<Rightarrow> (error + uint64) \<times> ArbosState" where
  "IncrementNumTries st retryable =
     (if fault st OpIncrementTries then (Inl (StoreFailure OpIncrementTries), st)
      else (case tickets st retryable of
              None \<Rightarrow> (Inl (StoreFailure OpIncrementTries), st)
            | Some t \<Rightarrow>
                (Inr (numTries t + 1),
                 st\<lparr>tickets := (tickets st)(retryable \<mapsto> t\<lparr>numTries := numTries t + 1\<rparr>)\<rparr>)))"

text \<open>
  Modelled from the spec: the fee registry's accessors (\<^verbatim>\<open>L1PricingState\<close>, not among
  the sources): a lookup of the aggregator's fee collector and its assignment.
\<close>

definition AggregatorFeeCollector :: "ArbosState \<Rightarrow> addr \<Rightarrow> error + addr" where
  "AggregatorFeeCollector st aggregator =
     (if fault st OpGetCollector then Inl (StoreFailure OpGetCollector)
      else Inr (feeCollectors st aggregator))"

definition SetAggregatorFeeCollector :: "ArbosState \<Rightarrow> addr \<Rightarrow> addr \<Rightarrow> error option \<times> ArbosState" where
  "SetAggregatorFeeCollector st aggregator newFeeCollector =
     (if fault st OpSetCollector then (Some (StoreFailure OpSetCollector), st)
      else (None, st\<lparr>feeCollectors := (feeCollectors st)(aggregator := newFeeCollector)\<rparr>))"

section \<open>ArbAggregator\<close>

text \<open>
  A Go function returning \<^verbatim>\<open>error\<close> returns \<open>error option\<close> here (\<open>None\<close> is
  \<^verbatim>\<open>nil\<close>); one returning \<^verbatim>\<open>(value, error)\<close> returns \<open>error + value\<close>, the value that
  accompanies a non-nil error being dropped. The context and the machine are returned
  as the call leaves them, whether it fails or not: reverting a failed call is the
  work of the enclosing frame.
\<close>

definition GetFeeCollector :: "ctx \<Rightarrow> mech \<Rightarrow> addr \<Rightarrow> error + addr" where
  "GetFeeCollector c evm aggregator = AggregatorFeeCollector (state c) aggregator"

definition SetFeeCollector :: "ctx \<Rightarrow> mech \<Rightarrow> addr \<Rightarrow> addr \<Rightarrow> error option \<times> ctx" where
  "SetFeeCollector c evm aggregator newFeeCollector =
     (case AggregatorFeeCollector (state c) aggregator of
        Inl err \<Rightarrow> (Some err, c)
      | Inr collector \<Rightarrow>
          if caller c \<noteq> aggregator \<and> caller c \<noteq> collector
          then (Some (ErrorsNew ''non-authorized c.caller in ArbAggregator.SetFeeCollector''), c)
          else (case SetAggregatorFeeCollector (state c) aggregator newFeeCollector of
                  (err, st') \<Rightarrow> (err, c\<lparr>state := st'\<rparr>)))"

section \<open>ArbRetryableTx\<close>

definition Cancel :: "ctx \<Rightarrow> mech \<Rightarrow> bytes32 \<Rightarrow> error option \<times> ctx \<times> mech" where
  "Cancel c evm ticketId =
     (case OpenRetryable (state c) ticketId (Time evm) of
        Inl err \<Rightarrow> (Some err, c, evm)
      | Inr opened \<Rightarrow>
          (case opened of
             None \<Rightarrow> (Some NotFoundError, c, evm)
           | Some retryable \<Rightarrow>
               (case Beneficiary (state c) retryable of
                  Inl err \<Rightarrow> (Some err, c, evm)
                | Inr b \<Rightarrow>
                    if caller c \<noteq> b
                    then (Some (ErrorsNew ''only the beneficiary may cancel a retryable''), c, evm)
                    else (case DeleteRetryable (state c) ticketId of
                            (deleted, st') \<Rightarrow>
                              ((case deleted of Inl err \<Rightarrow> Some err | Inr existed \<Rightarrow> None),
                               c\<lparr>state := st'\<rparr>,
                               emit evm (Canceled ticketId))))))"

definition GetBeneficiary :: "chain_params \<Rightarrow> ctx \<Rightarrow> mech \<Rightarrow> bytes32 \<Rightarrow> (error + addr) \<times> ctx \<times> mech" where
  "GetBeneficiary p c evm ticketId =
     (case burn c (2 * SloadGas p) of
        (burnt, c1) \<Rightarrow>
          (case burnt of
             Some err \<Rightarrow> (Inl err, c1, evm)
           | None \<Rightarrow>
               (case OpenRetryable (state c1) ticketId (Time evm) of
                  Inl err \<Rightarrow> (Inl err, c1, evm)
                | Inr opened \<Rightarrow>
                    (case opened of
                       None \<Rightarrow> (Inl NotFoundError, c1, evm)
                     | Some retryable \<Rightarrow> (Beneficiary (state c1) retryable, c1, evm)))))"

definition GetTimeout :: "ctx \<Rightarrow> mech \<Rightarrow> bytes32 \<Rightarrow> (error + huge) \<times> ctx \<times> mech" where
  "GetTimeout c evm ticketId =
     (case OpenRetryable (state c) ticketId (Time evm) of
        Inl err \<Rightarrow> (Inl err, c, evm)
      | Inr opened \<Rightarrow>
          (case opened of
             None \<Rightarrow> (Inl NotFoundError, c, evm)
           | Some retryable \<Rightarrow>
               (case Timeout (state c) retryable of
                  Inl err \<Rightarrow> (Inl err, c, evm)
                | Inr tmo \<Rightarrow> (Inr (sint tmo), c, evm))))"

definition Keepalive ::
  "chain_params \<Rightarrow> ArbRetryableTx \<Rightarrow> ctx \<Rightarrow> mech \<Rightarrow> bytes32 \<Rightarrow> (error + huge) \<times> ctx \<times> mech" where
  "Keepalive p con c evm ticketId =
     (let eventCost = LifetimeExtendedGasCost con ticketId 0 in
      case burn c (6 * SloadGas p + 2 * SstoreSetGas p + eventCost) of
        (burnt, c1) \<Rightarrow>
          (case burnt of
             Some err \<Rightarrow> (Inl err, c1, evm)
           | None \<Rightarrow>
               (case RetryableSizeBytes (state c1) ticketId (Time evm) of
                  Inl err \<Rightarrow> (Inl err, c1, evm)
                | Inr nbytes \<Rightarrow>
                    if nbytes = 0 then (Inl NotFoundError, c1, evm)
                    else
                      (let updateCost = WordsForBytes nbytes * SstoreSetGas p div 100 in
                       case burn c1 updateCost of
                         (burnt2, c2) \<Rightarrow>
                           (case burnt2 of
                              Some err \<Rightarrow> (Inl err, c2, evm)
                            | None \<Rightarrow>
                                (let currentTime = Time evm;
                                     window = currentTime + RetryableLifetimeSeconds p in
                                 case RetryableState_Keepalive (state c2) ticketId currentTime window
                                        (RetryableLifetimeSeconds p) of
                                   (renewed, st3) \<Rightarrow>
                                     (case renewed of
                                        Some err \<Rightarrow> (Inl err, c2\<lparr>state := st3\<rparr>, evm)
                                      | None \<Rightarrow>
                                          (case OpenRetryable st3 ticketId currentTime of
                                             Inl err \<Rightarrow> (Inl err, c2\<lparr>state := st3\<rparr>, evm)
                                           | Inr opened \<Rightarrow>
                                               (case opened of
                                                  None \<Rightarrow> (Inl NilDereference, c2\<lparr>state := st3\<rparr>, evm)
                                                | Some retryable \<Rightarrow>
                                                    (case Timeout st3 retryable of
                                                       Inl err \<Rightarrow> (Inl err, c2\<lparr>state := st3\<rparr>, evm)
                                                     | Inr newTimeout \<Rightarrow>
                                                         (Inr (sint newTimeout),
                                                          c2\<lparr>state := st3\<rparr>,
                                                          emit evm (LifetimeExtended ticketId (sint newTimeout)))))))))))))"

definition Redeem ::
  "chain_params \<Rightarrow> ArbRetryableTx \<Rightarrow> ctx \<Rightarrow> mech \<Rightarrow> bytes32 \<Rightarrow> (error + bytes32) \<times> ctx \<times> mech" where
  "Redeem p con c evm ticketId =
     (let eventCost = RedeemScheduledGasCost con ticketId ticketId 0 0 (caller c) in
      case burn c (5 * SloadGas p + SstoreSetGas p + eventCost) of
        (burnt, c1) \<Rightarrow>
          (case burnt of
             Some err \<Rightarrow> (Inl err, c1, evm)
           | None \<Rightarrow>
               (case RetryableSizeBytes (state c1) ticketId (Time evm) of
                  Inl err \<Rightarrow> (Inl err, c1, evm)
                | Inr byteCount \<Rightarrow>
                    (let writeBytes = WordsForBytes byteCount in
                     case burn c1 (SloadGas p * writeBytes) of
                       (burnt2, c2) \<Rightarrow>
                         (case burnt2 of
                            Some err \<Rightarrow> (Inl err, c2, evm)
                          | None \<Rightarrow>
                              (case OpenRetryable (state c2) ticketId (Time evm) of
                                 Inl err \<Rightarrow> (Inl err, c2, evm)
                               | Inr opened \<Rightarrow>
                                   (case opened of
                                      None \<Rightarrow> (Inl NotFoundError, c2, evm)
                                    | Some retryable \<Rightarrow>
                                        (case IncrementNumTries (state c2) retryable of
                                           (incremented, st3) \<Rightarrow>
                                             (case incremented of
                                                Inl err \<Rightarrow> (Inl err, c2\<lparr>state := st3\<rparr>, evm)
                                              | Inr sequenceNum \<Rightarrow>
                                                  (let c3 = c2\<lparr>state := st3\<rparr>;
                                                       redeemTxId = TxIdForRedeemAttempt p ticketId sequenceNum;
                                                       evm1 = emit evm (RedeemScheduled ticketId redeemTxId
                                                                sequenceNum (gasLeft c3) (caller c3)) in
                                                   case burn c3 (gasLeft c3) of
                                                     (burnt3, c4) \<Rightarrow>
                                                       (case burnt3 of
                                                          Some err \<Rightarrow> (Inl err, c4, evm1)
                                                        | None \<Rightarrow> (Inr redeemTxId, c4, evm1))))))))))))"

section \<open>Concrete scenarios\<close>

text \<open>
  A small chain used to run the operations on concrete inputs: storage read cost 800,
  storage set cost 20000, a lifetime window of 600 seconds, and truncation to the low
  32 bytes standing in for the hash. The redeem-scheduled event cost depends on the
  sequence number and the gas amount it is asked about.
\<close>

definition scenario_params :: chain_params where
  "scenario_params =
     \<lparr>SloadGas = 800, SstoreSetGas = 20000, RetryableLifetimeSeconds = 600, Hash = ucast\<rparr>"

definition scenario_con :: ArbRetryableTx where
  "scenario_con =
     \<lparr>TicketCreatedGasCost = (\<lambda>t. 0),
      LifetimeExtendedGasCost = (\<lambda>t n. 1000),
      RedeemScheduledGasCost = (\<lambda>t r s g a. 2000 + s + g),
      RedeemedGasCost = (\<lambda>t. 0),
      CanceledGasCost = (\<lambda>t. 0)\<rparr>"

text \<open>
  One ticket, number 7: 100 bytes, beneficiary \<open>0xB0\<close>, never tried, timeout 1000.
  Aggregator \<open>0xA0\<close> has fee collector \<open>0xC0\<close>. The storage reports the failures
  listed in \<open>broken\<close>.
\<close>

definition scenario_ticket :: ticket where
  "scenario_ticket = \<lparr>beneficiary = 0xB0, sizeBytes = 100, numTries = 0, timeout = 1000\<rparr>"

definition scenario_state :: "store_op list \<Rightarrow> ArbosState" where
  "scenario_state broken =
     \<lparr>tickets = (\<lambda>k. None)(7 := Some scenario_ticket),
      feeCollectors = (\<lambda>a. 0)(0xA0 := 0xC0),
      fault = (\<lambda>op. op \<in> set broken)\<rparr>"

definition scenario_ctx :: "addr \<Rightarrow> uint64 \<Rightarrow> store_op list \<Rightarrow> ctx" where
  "scenario_ctx who gas broken = \<lparr>caller = who, gasLeft = gas, state = scenario_state broken\<rparr>"

definition scenario_evm :: "uint64 \<Rightarrow> mech" where
  "scenario_evm now = \<lparr>Time = now, logs = []\<rparr>"

text \<open>
  The same ticket far in the future: its timeout is the largest 64-bit value and the
  block time is \<open>2 ^ 63\<close>.
\<close>

definition late_ctx :: ctx where
  "late_ctx =
     \<lparr>caller = 1, gasLeft = 50000,
      state = (scenario_state [])\<lparr>tickets :=
        (\<lambda>k. None)(7 := Some (scenario_ticket\<lparr>timeout := 0xFFFFFFFFFFFFFFFF\<rparr>))\<rparr>\<rparr>"

definition late_evm :: mech where
  "late_evm = \<lparr>Time = 0x8000000000000000, logs = []\<rparr>"

text \<open>
  The chain after ticket 7 has been redeemed once by caller 1 with 50000 gas at time
  900: the state, and the machine with the one event in its log. A second redeem is
  then run by caller 2 with 40000 gas.
\<close>

definition once_redeemed_state :: ArbosState where
  "once_redeemed_state =
     (scenario_state [])\<lparr>tickets :=
        (tickets (scenario_state []))(7 \<mapsto> scenario_ticket\<lparr>numTries := 1\<rparr>)\<rparr>"

definition once_redeemed_evm :: mech where
  "once_redeemed_evm =
     \<lparr>Time = 900, logs = [RedeemScheduled 7 129127208515966861313 1 20800 1]\<rparr>"

definition second_ctx :: ctx where
  "second_ctx = \<lparr>caller = 2, gasLeft = 40000, state = once_redeemed_state\<rparr>"

text \<open>
  The same chain with a hash that sends every input to 0, and the machine as a first
  redeem leaves it there.
\<close>

definition colliding_params :: chain_params where
  "colliding_params = scenario_params\<lparr>Hash := (\<lambda>w. 0)\<rparr>"

definition colliding_evm :: mech where
  "colliding_evm = \<lparr>Time = 900, logs = [RedeemScheduled 7 0 1 20800 1]\<rparr>"

section \<open>Basic facts\<close>

lemma WordsForBytes_unat: "unat (WordsForBytes n) = (unat n + 31) div 32"
proof -
  have "unat n < 2 ^ 64" using unsigned_less [of n, where 'a = nat] by simp
  then have "(unat n + 31) div 32 < 2 ^ 64" by simp
  then show ?thesis by (simp add: WordsForBytes_def unat_of_nat)
qed

lemma WordsForBytes_0: "WordsForBytes 0 = 0"
  by (simp add: WordsForBytes_def)

text \<open>The concatenation keeps the sequence number apart.\<close>

lemma word_cat_seq_inj:
  assumes "(word_cat (t :: bytes32) (a :: uint64) :: 320 word) = word_cat t b"
  shows "a = b"
proof (rule bit_word_eqI)
  fix n assume n: "n < LENGTH(64)"
  from assms have "bit (word_cat t a :: 320 word) n = bit (word_cat t b :: 320 word) n" by simp
  with n show "bit a n = bit b n" by (simp add: bit_word_cat_iff)
qed

subsection \<open>What a successful renewal and a successful redeem did\<close>


lemma Redeem_success:
  assumes "Redeem p con c evm ticketId = (Inr rid, c', evm')"
  shows "\<exists>t. tickets (state c) ticketId = Some t \<and> \<not> timeout t < Time evm
     \<and> \<not> gasLeft c < 5 * SloadGas p + SstoreSetGas p + RedeemScheduledGasCost con ticketId ticketId 0 0 (caller c)
     \<and> \<not> gasLeft c - (5 * SloadGas p + SstoreSetGas p + RedeemScheduledGasCost con ticketId ticketId 0 0 (caller c))
           < SloadGas p * WordsForBytes (sizeBytes t)
     \<and> rid = TxIdForRedeemAttempt p ticketId (numTries t + 1)
     \<and> state c' = (state c)\<lparr>tickets := (tickets (state c))(ticketId \<mapsto> t\<lparr>numTries := numTries t + 1\<rparr>)\<rparr>
     \<and> caller c' = caller c
     \<and> gasLeft c' = 0
     \<and> evm' = evm\<lparr>logs := logs evm @ [RedeemScheduled ticketId rid (numTries t + 1)
          (gasLeft c - (5 * SloadGas p + SstoreSetGas p + RedeemScheduledGasCost con ticketId ticketId 0 0 (caller c))
             - SloadGas p * WordsForBytes (sizeBytes t)) (caller c)]\<rparr>"
  using assms
  by (auto simp add: Redeem_def burn_def Let_def RetryableSizeBytes_def IncrementNumTries_def
        OpenRetryable_def emit_def
      split: prod.splits option.splits sum.splits if_splits)

subsection \<open>Evaluation on the scenarios\<close>

lemmas scenario_defs = scenario_params_def scenario_con_def scenario_ticket_def scenario_state_def
  scenario_ctx_def scenario_evm_def late_ctx_def late_evm_def
lemmas store_defs = burn_def emit_def OpenRetryable_def DeleteRetryable_def RetryableSizeBytes_def
  RetryableState_Keepalive_def Beneficiary_def Timeout_def IncrementNumTries_def
  AggregatorFeeCollector_def SetAggregatorFeeCollector_def TxIdForRedeemAttempt_def

lemma WordsForBytes_100: "WordsForBytes 100 = 4"
  by (simp add: WordsForBytes_def)




section \<open>Renewal\<close>




section \<open>Cancellation\<close>

text \<open>
  Claim C3. For a ticket that is present and unexpired, \<open>Cancel\<close> by a caller other than
  the ticket's beneficiary returns the authorization error and leaves the context and
  the machine as they were: the ticket is still stored, unchanged, and no event is
  emitted. (The storage reports no failure on the two reads.)
\<close>

theorem Cancel_non_beneficiary:
  assumes "tickets (state c) ticketId = Some t" and "\<not> timeout t < Time evm"
    and "\<not> fault (state c) OpOpen" and "\<not> fault (state c) OpBeneficiary"
    and "caller c \<noteq> beneficiary t"
  shows "Cancel c evm ticketId =
           (Some (ErrorsNew ''only the beneficiary may cancel a retryable''), c, evm)"
  using assms by (simp add: Cancel_def OpenRetryable_def Beneficiary_def)

theorem Cancel_non_beneficiary_witness:
  "tickets (state (scenario_ctx 0xC0 0 [])) 7 = Some scenario_ticket
   \<and> \<not> timeout scenario_ticket < Time (scenario_evm 900)
   \<and> \<not> fault (state (scenario_ctx 0xC0 0 [])) OpOpen
   \<and> \<not> fault (state (scenario_ctx 0xC0 0 [])) OpBeneficiary
   \<and> caller (scenario_ctx 0xC0 0 []) \<noteq> beneficiary scenario_ticket
   \<and> Cancel (scenario_ctx 0xC0 0 []) (scenario_evm 900) 7 =
        (Some (ErrorsNew ''only the beneficiary may cancel a retryable''),
         scenario_ctx 0xC0 0 [], scenario_evm 900)"
proof -
  have h1: "tickets (state (scenario_ctx 0xC0 0 [])) 7 = Some scenario_ticket"
    by (simp add: scenario_defs)
  have h2: "\<not> timeout scenario_ticket < Time (scenario_evm 900)"
    by (simp add: scenario_defs)
  have h3: "\<not> fault (state (scenario_ctx 0xC0 0 [])) OpOpen"
    by (simp add: scenario_defs)
  have h4: "\<not> fault (state (scenario_ctx 0xC0 0 [])) OpBeneficiary"
    by (simp add: scenario_defs)
  have h5: "caller (scenario_ctx 0xC0 0 []) \<noteq> beneficiary scenario_ticket"
    by (simp add: scenario_defs)
  from h1 h2 h3 h4 h5 Cancel_non_beneficiary [OF h1 h2 h3 h4 h5]
  show ?thesis by (intro conjI)
qed

text \<open>
  Claim C9. When the ticket is found and the caller is its beneficiary, \<open>Cancel\<close> emits
  the canceled event whatever the store's delete returns, and returns the delete's
  error (if any) with the event already in the log: the emission is not gated on the
  delete succeeding.
\<close>

theorem Cancel_emits_whatever_delete_returns:
  assumes "tickets (state c) ticketId = Some t" and "\<not> timeout t < Time evm"
    and "\<not> fault (state c) OpOpen" and "\<not> fault (state c) OpBeneficiary"
    and "caller c = beneficiary t"
  shows "Cancel c evm ticketId =
           ((case fst (DeleteRetryable (state c) ticketId) of
               Inl err \<Rightarrow> Some err | Inr existed \<Rightarrow> None),
            c\<lparr>state := snd (DeleteRetryable (state c) ticketId)\<rparr>,
            evm\<lparr>logs := logs evm @ [Canceled ticketId]\<rparr>)"
  using assms
  by (simp add: Cancel_def OpenRetryable_def Beneficiary_def emit_def split: prod.splits)

text \<open>With a storage whose delete fails, the event is in the log and the error is returned.\<close>

theorem Cancel_emits_whatever_delete_returns_witness:
  "tickets (state (scenario_ctx 0xB0 0 [OpDelete])) 7 = Some scenario_ticket
   \<and> \<not> timeout scenario_ticket < Time (scenario_evm 900)
   \<and> \<not> fault (state (scenario_ctx 0xB0 0 [OpDelete])) OpOpen
   \<and> \<not> fault (state (scenario_ctx 0xB0 0 [OpDelete])) OpBeneficiary
   \<and> caller (scenario_ctx 0xB0 0 [OpDelete]) = beneficiary scenario_ticket
   \<and> DeleteRetryable (state (scenario_ctx 0xB0 0 [OpDelete])) 7 =
        (Inl (StoreFailure OpDelete), state (scenario_ctx 0xB0 0 [OpDelete]))
   \<and> Cancel (scenario_ctx 0xB0 0 [OpDelete]) (scenario_evm 900) 7 =
        (Some (StoreFailure OpDelete), scenario_ctx 0xB0 0 [OpDelete],
         \<lparr>Time = 900, logs = [Canceled 7]\<rparr>)"
proof -
  have h1: "tickets (state (scenario_ctx 0xB0 0 [OpDelete])) 7 = Some scenario_ticket"
    by (simp add: scenario_defs)
  have h2: "\<not> timeout scenario_ticket < Time (scenario_evm 900)"
    by (simp add: scenario_defs)
  have h3: "\<not> fault (state (scenario_ctx 0xB0 0 [OpDelete])) OpOpen"
    by (simp add: scenario_defs)
  have h4: "\<not> fault (state (scenario_ctx 0xB0 0 [OpDelete])) OpBeneficiary"
    by (simp add: scenario_defs)
  have h5: "caller (scenario_ctx 0xB0 0 [OpDelete]) = beneficiary scenario_ticket"
    by (simp add: scenario_defs)
  have d: "DeleteRetryable (state (scenario_ctx 0xB0 0 [OpDelete])) 7 =
        (Inl (StoreFailure OpDelete), state (scenario_ctx 0xB0 0 [OpDelete]))"
    by (simp add: scenario_defs DeleteRetryable_def)
  have "Cancel (scenario_ctx 0xB0 0 [OpDelete]) (scenario_evm 900) 7 =
        (Some (StoreFailure OpDelete), scenario_ctx 0xB0 0 [OpDelete],
         \<lparr>Time = 900, logs = [Canceled 7]\<rparr>)"
    using Cancel_emits_whatever_delete_returns [OF h1 h2 h3 h4 h5]
    by (simp add: d) (simp add: scenario_evm_def scenario_ctx_def)
  with h1 h2 h3 h4 h5 d show ?thesis by (intro conjI)
qed

section \<open>Fee collector\<close>

text \<open>
  Claim C8. \<open>SetFeeCollector\<close> succeeds only when the caller is the aggregator or the
  aggregator's current fee collector, and after a success \<open>GetFeeCollector\<close> returns the
  new collector; for every other caller it returns the authorization error and leaves
  the context, and so the aggregator's fee collector, unchanged.
\<close>

theorem SetFeeCollector_authorization:
  "(SetFeeCollector c evm aggregator newFeeCollector = (None, c') \<longrightarrow>
      (caller c = aggregator \<or> caller c = feeCollectors (state c) aggregator)
      \<and> GetFeeCollector c' evm' aggregator = Inr newFeeCollector)
   \<and> (\<not> fault (state c) OpGetCollector \<and> caller c \<noteq> aggregator
        \<and> caller c \<noteq> feeCollectors (state c) aggregator \<longrightarrow>
        SetFeeCollector c evm aggregator newFeeCollector =
          (Some (ErrorsNew ''non-authorized c.caller in ArbAggregator.SetFeeCollector''), c))"
  by (auto simp add: SetFeeCollector_def GetFeeCollector_def AggregatorFeeCollector_def
      SetAggregatorFeeCollector_def split: if_splits)

lemma SetFeeCollector_run:
  "SetFeeCollector (scenario_ctx 0xC0 0 []) (scenario_evm 900) 0xA0 0xE0 =
     (None, \<lparr>caller = 0xC0, gasLeft = 0,
             state = (scenario_state [])\<lparr>feeCollectors := (feeCollectors (scenario_state []))(0xA0 := 0xE0)\<rparr>\<rparr>)"
  by (simp add: SetFeeCollector_def scenario_defs store_defs)

theorem SetFeeCollector_authorization_witness:
  "SetFeeCollector (scenario_ctx 0xC0 0 []) (scenario_evm 900) 0xA0 0xE0 =
     (None, \<lparr>caller = 0xC0, gasLeft = 0,
             state = (scenario_state [])\<lparr>feeCollectors := (feeCollectors (scenario_state []))(0xA0 := 0xE0)\<rparr>\<rparr>)
   \<and> caller (scenario_ctx 0xC0 0 []) = feeCollectors (state (scenario_ctx 0xC0 0 [])) 0xA0
   \<and> GetFeeCollector \<lparr>caller = 0xC0, gasLeft = 0,
             state = (scenario_state [])\<lparr>feeCollectors := (feeCollectors (scenario_state []))(0xA0 := 0xE0)\<rparr>\<rparr>
        (scenario_evm 900) 0xA0 = Inr 0xE0
   \<and> \<not> fault (state (scenario_ctx 0xD0 0 [])) OpGetCollector
   \<and> caller (scenario_ctx 0xD0 0 []) \<noteq> 0xA0
   \<and> caller (scenario_ctx 0xD0 0 []) \<noteq> feeCollectors (state (scenario_ctx 0xD0 0 [])) 0xA0
   \<and> SetFeeCollector (scenario_ctx 0xD0 0 []) (scenario_evm 900) 0xA0 0xE0 =
        (Some (ErrorsNew ''non-authorized c.caller in ArbAggregator.SetFeeCollector''),
         scenario_ctx 0xD0 0 [])"
proof -
  have a: "caller (scenario_ctx 0xC0 0 []) = feeCollectors (state (scenario_ctx 0xC0 0 [])) 0xA0"
    by (simp add: scenario_defs)
  have h1: "\<not> fault (state (scenario_ctx 0xD0 0 [])) OpGetCollector"
    by (simp add: scenario_defs)
  have h2: "caller (scenario_ctx 0xD0 0 []) \<noteq> 0xA0"
    by (simp add: scenario_defs)
  have h3: "caller (scenario_ctx 0xD0 0 []) \<noteq> feeCollectors (state (scenario_ctx 0xD0 0 [])) 0xA0"
    by (simp add: scenario_defs)
  from SetFeeCollector_authorization [of "scenario_ctx 0xC0 0 []" "scenario_evm 900" "0xA0" "0xE0" _ "scenario_evm 900"]
    SetFeeCollector_run
  have g: "GetFeeCollector \<lparr>caller = 0xC0, gasLeft = 0,
             state = (scenario_state [])\<lparr>feeCollectors := (feeCollectors (scenario_state []))(0xA0 := 0xE0)\<rparr>\<rparr>
        (scenario_evm 900) 0xA0 = Inr 0xE0"
    by blast
  from SetFeeCollector_authorization [of "scenario_ctx 0xD0 0 []" "scenario_evm 900" "0xA0" "0xE0"] h1 h2 h3
  have u: "SetFeeCollector (scenario_ctx 0xD0 0 []) (scenario_evm 900) 0xA0 0xE0 =
        (Some (ErrorsNew ''non-authorized c.caller in ArbAggregator.SetFeeCollector''),
         scenario_ctx 0xD0 0 [])"
    by blast
  from SetFeeCollector_run a g h1 h2 h3 u show ?thesis by (intro conjI)
qed

section \<open>Absent and expired tickets\<close>

text \<open>
  Claim C4, as the code has it. For a ticket identifier that is absent from the store
  or expired at the current time (the storage reporting no failure), \<open>Cancel\<close> and
  \<open>GetTimeout\<close> return the not-found error and change nothing. \<open>GetBeneficiary\<close>,
  \<open>Keepalive\<close> and \<open>Redeem\<close> charge their fixed cost first: when the caller's gas does
  not cover it they return out-of-gas and change nothing, and otherwise they return the
  same not-found error with exactly that cost taken from the gas left and nothing else
  changed. In every case the chain state is as it was and no event is emitted.
\<close>

theorem absent_ticket_not_found:
  assumes "case tickets (state c) ticketId of None \<Rightarrow> True | Some t \<Rightarrow> timeout t < Time evm"
    and "\<not> fault (state c) OpOpen" and "\<not> fault (state c) OpSizeBytes"
  shows "Cancel c evm ticketId = (Some NotFoundError, c, evm)
     \<and> GetTimeout c evm ticketId = (Inl NotFoundError, c, evm)
     \<and> GetBeneficiary p c evm ticketId =
          (if gasLeft c < 2 * SloadGas p then (Inl ErrOutOfGas, c, evm)
           else (Inl NotFoundError, c\<lparr>gasLeft := gasLeft c - 2 * SloadGas p\<rparr>, evm))
     \<and> Keepalive p con c evm ticketId =
          (if gasLeft c < 6 * SloadGas p + 2 * SstoreSetGas p + LifetimeExtendedGasCost con ticketId 0
           then (Inl ErrOutOfGas, c, evm)
           else (Inl NotFoundError,
                 c\<lparr>gasLeft := gasLeft c
                    - (6 * SloadGas p + 2 * SstoreSetGas p + LifetimeExtendedGasCost con ticketId 0)\<rparr>,
                 evm))
     \<and> Redeem p con c evm ticketId =
          (if gasLeft c < 5 * SloadGas p + SstoreSetGas p
                           + RedeemScheduledGasCost con ticketId ticketId 0 0 (caller c)
           then (Inl ErrOutOfGas, c, evm)
           else (Inl NotFoundError,
                 c\<lparr>gasLeft := gasLeft c
                    - (5 * SloadGas p + SstoreSetGas p
                       + RedeemScheduledGasCost con ticketId ticketId 0 0 (caller c))\<rparr>,
                 evm))
     \<and> fst (GetBeneficiary p c evm ticketId) =
          (if gasLeft c < 2 * SloadGas p then Inl ErrOutOfGas else Inl NotFoundError)
     \<and> fst (Keepalive p con c evm ticketId) =
          (if gasLeft c < 6 * SloadGas p + 2 * SstoreSetGas p + LifetimeExtendedGasCost con ticketId 0
           then Inl ErrOutOfGas else Inl NotFoundError)
     \<and> fst (Redeem p con c evm ticketId) =
          (if gasLeft c < 5 * SloadGas p + SstoreSetGas p
                           + RedeemScheduledGasCost con ticketId ticketId 0 0 (caller c)
           then Inl ErrOutOfGas else Inl NotFoundError)
     \<and> state (fst (snd (GetBeneficiary p c evm ticketId))) = state c
     \<and> snd (snd (GetBeneficiary p c evm ticketId)) = evm
     \<and> state (fst (snd (Keepalive p con c evm ticketId))) = state c
     \<and> snd (snd (Keepalive p con c evm ticketId)) = evm
     \<and> state (fst (snd (Redeem p con c evm ticketId))) = state c
     \<and> snd (snd (Redeem p con c evm ticketId)) = evm"
proof -
  from assms have opened: "OpenRetryable (state c) ticketId (Time evm) = Inr None"
    by (auto simp add: OpenRetryable_def split: option.splits)
  from assms have size: "RetryableSizeBytes (state c) ticketId (Time evm) = Inr 0"
    by (auto simp add: RetryableSizeBytes_def split: option.splits)
  have 1: "Cancel c evm ticketId = (Some NotFoundError, c, evm)"
    by (simp add: Cancel_def opened)
  have 2: "GetTimeout c evm ticketId = (Inl NotFoundError, c, evm)"
    by (simp add: GetTimeout_def opened)
  have b: "GetBeneficiary p c evm ticketId =
          (if gasLeft c < 2 * SloadGas p then (Inl ErrOutOfGas, c, evm)
           else (Inl NotFoundError, c\<lparr>gasLeft := gasLeft c - 2 * SloadGas p\<rparr>, evm))"
    by (simp add: GetBeneficiary_def burn_def opened)
  have k: "Keepalive p con c evm ticketId =
          (if gasLeft c < 6 * SloadGas p + 2 * SstoreSetGas p + LifetimeExtendedGasCost con ticketId 0
           then (Inl ErrOutOfGas, c, evm)
           else (Inl NotFoundError,
                 c\<lparr>gasLeft := gasLeft c
                    - (6 * SloadGas p + 2 * SstoreSetGas p + LifetimeExtendedGasCost con ticketId 0)\<rparr>,
                 evm))"
    by (simp add: Keepalive_def burn_def size)
  have r: "Redeem p con c evm ticketId =
          (if gasLeft c < 5 * SloadGas p + SstoreSetGas p
                           + RedeemScheduledGasCost con ticketId ticketId 0 0 (caller c)
           then (Inl ErrOutOfGas, c, evm)
           else (Inl NotFoundError,
                 c\<lparr>gasLeft := gasLeft c
                    - (5 * SloadGas p + SstoreSetGas p
                       + RedeemScheduledGasCost con ticketId ticketId 0 0 (caller c))\<rparr>,
                 evm))"
    by (simp add: Redeem_def burn_def size opened WordsForBytes_0)
  have 3: "fst (GetBeneficiary p c evm ticketId) =
          (if gasLeft c < 2 * SloadGas p then Inl ErrOutOfGas else Inl NotFoundError)"
    and 6: "state (fst (snd (GetBeneficiary p c evm ticketId))) = state c"
    and 7: "snd (snd (GetBeneficiary p c evm ticketId)) = evm"
    by (simp_all add: b)
  have 4: "fst (Keepalive p con c evm ticketId) =
          (if gasLeft c < 6 * SloadGas p + 2 * SstoreSetGas p + LifetimeExtendedGasCost con ticketId 0
           then Inl ErrOutOfGas else Inl NotFoundError)"
    and 8: "state (fst (snd (Keepalive p con c evm ticketId))) = state c"
    and 9: "snd (snd (Keepalive p con c evm ticketId)) = evm"
    by (simp_all add: k)
  have 5: "fst (Redeem p con c evm ticketId) =
          (if gasLeft c < 5 * SloadGas p + SstoreSetGas p
                           + RedeemScheduledGasCost con ticketId ticketId 0 0 (caller c)
           then Inl ErrOutOfGas else Inl NotFoundError)"
    and 10: "state (fst (snd (Redeem p con c evm ticketId))) = state c"
    and 11: "snd (snd (Redeem p con c evm ticketId)) = evm"
    by (simp_all add: r)
  from 1 2 b k r 3 4 5 6 7 8 9 10 11 show ?thesis by (intro conjI)
qed

text \<open>
  Ticket 7 at time 2000 has expired: of 50000 gas, \<open>GetBeneficiary\<close> leaves 48400,
  \<open>Keepalive\<close> 4200 and \<open>Redeem\<close> 24000.
\<close>

theorem absent_ticket_not_found_witness:
  "(case tickets (state (scenario_ctx 1 50000 [])) 7 of
      None \<Rightarrow> True | Some t \<Rightarrow> timeout t < Time (scenario_evm 2000))
   \<and> \<not> fault (state (scenario_ctx 1 50000 [])) OpOpen
   \<and> \<not> fault (state (scenario_ctx 1 50000 [])) OpSizeBytes
   \<and> Cancel (scenario_ctx 1 50000 []) (scenario_evm 2000) 7 =
        (Some NotFoundError, scenario_ctx 1 50000 [], scenario_evm 2000)
   \<and> GetTimeout (scenario_ctx 1 50000 []) (scenario_evm 2000) 7 =
        (Inl NotFoundError, scenario_ctx 1 50000 [], scenario_evm 2000)
   \<and> GetBeneficiary scenario_params (scenario_ctx 1 50000 []) (scenario_evm 2000) 7 =
        (Inl NotFoundError, scenario_ctx 1 48400 [], scenario_evm 2000)
   \<and> Keepalive scenario_params scenario_con (scenario_ctx 1 50000 []) (scenario_evm 2000) 7 =
        (Inl NotFoundError, scenario_ctx 1 4200 [], scenario_evm 2000)
   \<and> Redeem scenario_params scenario_con (scenario_ctx 1 50000 []) (scenario_evm 2000) 7 =
        (Inl NotFoundError, scenario_ctx 1 24000 [], scenario_evm 2000)
   \<and> state (scenario_ctx 1 24000 []) = state (scenario_ctx 1 50000 [])"
proof -
  have h1: "case tickets (state (scenario_ctx 1 50000 [])) 7 of
      None \<Rightarrow> True | Some t \<Rightarrow> timeout t < Time (scenario_evm 2000)"
    by (simp add: scenario_defs)
  have h2: "\<not> fault (state (scenario_ctx 1 50000 [])) OpOpen"
    by (simp add: scenario_defs)
  have h3: "\<not> fault (state (scenario_ctx 1 50000 [])) OpSizeBytes"
    by (simp add: scenario_defs)
  note w = absent_ticket_not_found [OF h1 h2 h3, of scenario_params scenario_con]
  have g1: "\<not> gasLeft (scenario_ctx 1 50000 []) < 2 * SloadGas scenario_params"
    and s1: "(scenario_ctx 1 50000 [])\<lparr>gasLeft := gasLeft (scenario_ctx 1 50000 []) - 2 * SloadGas scenario_params\<rparr>
             = scenario_ctx 1 48400 []"
    by (simp_all add: scenario_defs)
  have g2: "\<not> gasLeft (scenario_ctx 1 50000 []) < 6 * SloadGas scenario_params + 2 * SstoreSetGas scenario_params
              + LifetimeExtendedGasCost scenario_con 7 0"
    and s2: "(scenario_ctx 1 50000 [])\<lparr>gasLeft := gasLeft (scenario_ctx 1 50000 [])
              - (6 * SloadGas scenario_params + 2 * SstoreSetGas scenario_params
                 + LifetimeExtendedGasCost scenario_con 7 0)\<rparr> = scenario_ctx 1 4200 []"
    by (simp_all add: scenario_defs)
  have g3: "\<not> gasLeft (scenario_ctx 1 50000 []) < 5 * SloadGas scenario_params + SstoreSetGas scenario_params
              + RedeemScheduledGasCost scenario_con 7 7 0 0 (caller (scenario_ctx 1 50000 []))"
    and s3: "(scenario_ctx 1 50000 [])\<lparr>gasLeft := gasLeft (scenario_ctx 1 50000 [])
              - (5 * SloadGas scenario_params + SstoreSetGas scenario_params
                 + RedeemScheduledGasCost scenario_con 7 7 0 0 (caller (scenario_ctx 1 50000 [])))\<rparr>
             = scenario_ctx 1 24000 []"
    by (simp_all add: scenario_defs)
  from w have c1: "Cancel (scenario_ctx 1 50000 []) (scenario_evm 2000) 7 =
        (Some NotFoundError, scenario_ctx 1 50000 [], scenario_evm 2000)"
    and c2: "GetTimeout (scenario_ctx 1 50000 []) (scenario_evm 2000) 7 =
        (Inl NotFoundError, scenario_ctx 1 50000 [], scenario_evm 2000)"
    by blast+
  from w [THEN conjunct2, THEN conjunct2, THEN conjunct1] g1 s1
  have c3: "GetBeneficiary scenario_params (scenario_ctx 1 50000 []) (scenario_evm 2000) 7 =
        (Inl NotFoundError, scenario_ctx 1 48400 [], scenario_evm 2000)"
    by simp
  from w [THEN conjunct2, THEN conjunct2, THEN conjunct2, THEN conjunct1] g2 s2
  have c4: "Keepalive scenario_params scenario_con (scenario_ctx 1 50000 []) (scenario_evm 2000) 7 =
        (Inl NotFoundError, scenario_ctx 1 4200 [], scenario_evm 2000)"
    by simp
  from w [THEN conjunct2, THEN conjunct2, THEN conjunct2, THEN conjunct2, THEN conjunct1] g3 s3
  have c5: "Redeem scenario_params scenario_con (scenario_ctx 1 50000 []) (scenario_evm 2000) 7 =
        (Inl NotFoundError, scenario_ctx 1 24000 [], scenario_evm 2000)"
    by simp
  have c6: "state (scenario_ctx 1 24000 []) = state (scenario_ctx 1 50000 [])"
    by (simp add: scenario_ctx_def)
  from h1 h2 h3 c1 c2 c3 c4 c5 c6 show ?thesis by (intro conjI)
qed

text \<open>
  Not every call on an absent ticket returns not-found: with no gas, the three
  operations that burn first return out-of-gas for the unknown ticket 8.
\<close>

theorem absent_ticket_out_of_gas_counterexample:
  "tickets (state (scenario_ctx 1 0 [])) 8 = None
   \<and> fst (GetBeneficiary scenario_params (scenario_ctx 1 0 []) (scenario_evm 900) 8) = Inl ErrOutOfGas
   \<and> fst (Keepalive scenario_params scenario_con (scenario_ctx 1 0 []) (scenario_evm 900) 8) = Inl ErrOutOfGas
   \<and> fst (Redeem scenario_params scenario_con (scenario_ctx 1 0 []) (scenario_evm 900) 8) = Inl ErrOutOfGas
   \<and> fst (GetBeneficiary scenario_params (scenario_ctx 1 0 []) (scenario_evm 900) 8) \<noteq> Inl NotFoundError"
proof -
  have a: "tickets (state (scenario_ctx 1 0 [])) 8 = None"
    by (simp add: scenario_defs)
  have b: "fst (GetBeneficiary scenario_params (scenario_ctx 1 0 []) (scenario_evm 900) 8) = Inl ErrOutOfGas"
    by (simp add: GetBeneficiary_def burn_def scenario_defs)
  have c: "fst (Keepalive scenario_params scenario_con (scenario_ctx 1 0 []) (scenario_evm 900) 8) = Inl ErrOutOfGas"
    by (simp add: Keepalive_def burn_def scenario_defs)
  have d: "fst (Redeem scenario_params scenario_con (scenario_ctx 1 0 []) (scenario_evm 900) 8) = Inl ErrOutOfGas"
    by (simp add: Redeem_def burn_def scenario_defs)
  have e: "fst (GetBeneficiary scenario_params (scenario_ctx 1 0 []) (scenario_evm 900) 8) \<noteq> Inl NotFoundError"
    by (simp add: b)
  from a b c d e show ?thesis by (intro conjI)
qed

section \<open>Gas charged by renewal\<close>

text \<open>
  Claim C7. \<open>Keepalive\<close> first burns exactly
  \<open>6 * SloadGas + 2 * SstoreSetGas + LifetimeExtendedGasCost ticketId 0\<close>: if the gas left
  does not cover it, the call ends there out of gas, with the chain state untouched and
  no event. Once the store has told the payload size \<open>n\<close>, it burns exactly
  \<open>WordsForBytes n * SstoreSetGas div 100\<close> from what the first burn left: if that fails,
  the chain state is still untouched, and otherwise the gas left at the end of the
  call is the initial gas less the two amounts (less the first alone for size 0, where
  the second is 0). \<open>WordsForBytes n\<close> is the least number of 32-byte words that hold
  \<open>n\<close> bytes. The amounts are those of the source's \<^verbatim>\<open>uint64\<close> arithmetic.
\<close>

theorem Keepalive_burns:
  "(gasLeft c < 6 * SloadGas p + 2 * SstoreSetGas p + LifetimeExtendedGasCost con ticketId 0 \<longrightarrow>
      fst (Keepalive p con c evm ticketId) = Inl ErrOutOfGas
      \<and> state (fst (snd (Keepalive p con c evm ticketId))) = state c
      \<and> snd (snd (Keepalive p con c evm ticketId)) = evm)
   \<and> (\<not> gasLeft c < 6 * SloadGas p + 2 * SstoreSetGas p + LifetimeExtendedGasCost con ticketId 0
        \<and> RetryableSizeBytes (state c) ticketId (Time evm) = Inr n
        \<and> gasLeft c - (6 * SloadGas p + 2 * SstoreSetGas p + LifetimeExtendedGasCost con ticketId 0)
             < WordsForBytes n * SstoreSetGas p div 100 \<longrightarrow>
      fst (Keepalive p con c evm ticketId) = Inl ErrOutOfGas
      \<and> state (fst (snd (Keepalive p con c evm ticketId))) = state c
      \<and> snd (snd (Keepalive p con c evm ticketId)) = evm)
   \<and> (\<not> gasLeft c < 6 * SloadGas p + 2 * SstoreSetGas p + LifetimeExtendedGasCost con ticketId 0
        \<and> RetryableSizeBytes (state c) ticketId (Time evm) = Inr n
        \<and> \<not> gasLeft c - (6 * SloadGas p + 2 * SstoreSetGas p + LifetimeExtendedGasCost con ticketId 0)
             < WordsForBytes n * SstoreSetGas p div 100 \<longrightarrow>
      gasLeft (fst (snd (Keepalive p con c evm ticketId))) =
        gasLeft c - (6 * SloadGas p + 2 * SstoreSetGas p + LifetimeExtendedGasCost con ticketId 0)
          - WordsForBytes n * SstoreSetGas p div 100)
   \<and> unat n \<le> 32 * unat (WordsForBytes n) \<and> 32 * unat (WordsForBytes n) < unat n + 32"
proof -
  have 1: "gasLeft c < 6 * SloadGas p + 2 * SstoreSetGas p + LifetimeExtendedGasCost con ticketId 0 \<longrightarrow>
      fst (Keepalive p con c evm ticketId) = Inl ErrOutOfGas
      \<and> state (fst (snd (Keepalive p con c evm ticketId))) = state c
      \<and> snd (snd (Keepalive p con c evm ticketId)) = evm"
    by (simp add: Keepalive_def burn_def)
  have 2: "\<not> gasLeft c < 6 * SloadGas p + 2 * SstoreSetGas p + LifetimeExtendedGasCost con ticketId 0
        \<and> RetryableSizeBytes (state c) ticketId (Time evm) = Inr n
        \<and> gasLeft c - (6 * SloadGas p + 2 * SstoreSetGas p + LifetimeExtendedGasCost con ticketId 0)
             < WordsForBytes n * SstoreSetGas p div 100 \<longrightarrow>
      fst (Keepalive p con c evm ticketId) = Inl ErrOutOfGas
      \<and> state (fst (snd (Keepalive p con c evm ticketId))) = state c
      \<and> snd (snd (Keepalive p con c evm ticketId)) = evm"
    by (cases "n = 0") (simp_all add: Keepalive_def burn_def WordsForBytes_0)
  have 3: "\<not> gasLeft c < 6 * SloadGas p + 2 * SstoreSetGas p + LifetimeExtendedGasCost con ticketId 0
        \<and> RetryableSizeBytes (state c) ticketId (Time evm) = Inr n
        \<and> \<not> gasLeft c - (6 * SloadGas p + 2 * SstoreSetGas p + LifetimeExtendedGasCost con ticketId 0)
             < WordsForBytes n * SstoreSetGas p div 100 \<longrightarrow>
      gasLeft (fst (snd (Keepalive p con c evm ticketId))) =
        gasLeft c - (6 * SloadGas p + 2 * SstoreSetGas p + LifetimeExtendedGasCost con ticketId 0)
          - WordsForBytes n * SstoreSetGas p div 100"
    by (cases "n = 0")
      (simp_all add: Keepalive_def burn_def Let_def WordsForBytes_0
         split: prod.splits option.splits sum.splits)
  have 4: "unat n \<le> 32 * unat (WordsForBytes n)" and 5: "32 * unat (WordsForBytes n) < unat n + 32"
    by (simp_all add: WordsForBytes_unat)
  from 1 2 3 4 5 show ?thesis by (intro conjI)
qed

text \<open>
  With fixed cost 45800 and update cost 800: no gas fails the first burn, 46000 fails
  the second, and 50000 ends with 3400.
\<close>

theorem Keepalive_burns_witness:
  "gasLeft (scenario_ctx 1 0 []) < 45800
   \<and> fst (Keepalive scenario_params scenario_con (scenario_ctx 1 0 []) (scenario_evm 900) 7) = Inl ErrOutOfGas
   \<and> state (fst (snd (Keepalive scenario_params scenario_con (scenario_ctx 1 0 []) (scenario_evm 900) 7)))
        = state (scenario_ctx 1 0 [])
   \<and> RetryableSizeBytes (state (scenario_ctx 1 46000 [])) 7 (Time (scenario_evm 900)) = Inr 100
   \<and> WordsForBytes 100 * SstoreSetGas scenario_params div 100 = 800
   \<and> fst (Keepalive scenario_params scenario_con (scenario_ctx 1 46000 []) (scenario_evm 900) 7) = Inl ErrOutOfGas
   \<and> state (fst (snd (Keepalive scenario_params scenario_con (scenario_ctx 1 46000 []) (scenario_evm 900) 7)))
        = state (scenario_ctx 1 46000 [])
   \<and> snd (snd (Keepalive scenario_params scenario_con (scenario_ctx 1 46000 []) (scenario_evm 900) 7))
        = scenario_evm 900
   \<and> gasLeft (fst (snd (Keepalive scenario_params scenario_con (scenario_ctx 1 50000 []) (scenario_evm 900) 7)))
        = 3400
   \<and> unat (WordsForBytes 100) = 4"
proof -
  have f: "6 * SloadGas scenario_params + 2 * SstoreSetGas scenario_params
            + LifetimeExtendedGasCost scenario_con 7 0 = 45800"
    by (simp add: scenario_defs)
  have u: "WordsForBytes 100 * SstoreSetGas scenario_params div 100 = 800"
    by (simp add: WordsForBytes_100 scenario_defs)
  have sz: "\<And>g. RetryableSizeBytes (state (scenario_ctx 1 g [])) 7 (Time (scenario_evm 900)) = Inr 100"
    by (simp add: RetryableSizeBytes_def scenario_defs)
  have g0: "gasLeft (scenario_ctx 1 0 []) < 45800"
    and g1: "\<not> gasLeft (scenario_ctx 1 46000 []) < 45800"
    and g1': "gasLeft (scenario_ctx 1 46000 []) - 45800 < 800"
    and g2: "\<not> gasLeft (scenario_ctx 1 50000 []) < 45800"
    and g2': "\<not> gasLeft (scenario_ctx 1 50000 []) - 45800 < 800"
    and s2: "gasLeft (scenario_ctx 1 50000 []) - 45800 - 800 = 3400"
    by (simp_all add: scenario_ctx_def)
  have c1: "fst (Keepalive scenario_params scenario_con (scenario_ctx 1 0 []) (scenario_evm 900) 7) = Inl ErrOutOfGas
     \<and> state (fst (snd (Keepalive scenario_params scenario_con (scenario_ctx 1 0 []) (scenario_evm 900) 7)))
        = state (scenario_ctx 1 0 [])"
    using Keepalive_burns [of "scenario_ctx 1 0 []" scenario_params scenario_con 7 "scenario_evm 900" 100] g0
    by (simp add: f)
  have c2: "fst (Keepalive scenario_params scenario_con (scenario_ctx 1 46000 []) (scenario_evm 900) 7) = Inl ErrOutOfGas
     \<and> state (fst (snd (Keepalive scenario_params scenario_con (scenario_ctx 1 46000 []) (scenario_evm 900) 7)))
        = state (scenario_ctx 1 46000 [])
     \<and> snd (snd (Keepalive scenario_params scenario_con (scenario_ctx 1 46000 []) (scenario_evm 900) 7))
        = scenario_evm 900"
    using Keepalive_burns [of "scenario_ctx 1 46000 []" scenario_params scenario_con 7 "scenario_evm 900" 100]
      g1 g1' sz
    by (simp add: f u)
  have c3: "gasLeft (fst (snd (Keepalive scenario_params scenario_con (scenario_ctx 1 50000 []) (scenario_evm 900) 7)))
        = 3400"
    using Keepalive_burns [of "scenario_ctx 1 50000 []" scenario_params scenario_con 7 "scenario_evm 900" 100]
      g2 g2' s2 sz
    by (simp add: f u)
  have c4: "unat (WordsForBytes 100) = 4"
    by (simp add: WordsForBytes_100)
  from g0 c1 sz [of 46000] u c2 c3 c4 show ?thesis by (intro conjI) blast+
qed

section \<open>Redeem\<close>

lemmas redeemed_defs = once_redeemed_state_def once_redeemed_evm_def second_ctx_def

lemma Redeem_run:
  "Redeem scenario_params scenario_con (scenario_ctx 1 50000 []) (scenario_evm 900) 7 =
     (Inr 129127208515966861313,
      \<lparr>caller = 1, gasLeft = 0, state = once_redeemed_state\<rparr>,
      once_redeemed_evm)"
  by (simp add: Redeem_def scenario_defs redeemed_defs store_defs WordsForBytes_100 word_cat_eq)

lemma Redeem_run_second:
  "Redeem scenario_params scenario_con second_ctx once_redeemed_evm 7 =
     (Inr 129127208515966861314,
      \<lparr>caller = 2, gasLeft = 0,
       state = (scenario_state [])\<lparr>tickets :=
          (tickets (scenario_state []))(7 \<mapsto> scenario_ticket\<lparr>numTries := 2\<rparr>)\<rparr>\<rparr>,
      \<lparr>Time = 900, logs = [RedeemScheduled 7 129127208515966861313 1 20800 1,
                           RedeemScheduled 7 129127208515966861314 2 10800 2]\<rparr>)"
  by (simp add: Redeem_def scenario_defs redeemed_defs store_defs WordsForBytes_100 word_cat_eq)

lemma unat_sub_twice:
  fixes g a b :: uint64
  assumes "\<not> g < a" and "\<not> g - a < b"
  shows "unat g = unat a + unat b + unat (g - a - b)"
proof -
  from assms(1) have a: "a \<le> g" by simp
  from assms(2) have b: "b \<le> g - a" by simp
  from a have 1: "unat (g - a) = unat g - unat a" by (rule unat_sub)
  from a have le1: "unat a \<le> unat g" by (simp add: word_le_nat_alt)
  from b have 2: "unat (g - a - b) = unat (g - a) - unat b" by (rule unat_sub)
  from b have le2: "unat b \<le> unat (g - a)" by (simp add: word_le_nat_alt)
  from 1 2 le1 le2 show ?thesis by simp
qed

text \<open>
  Claim C2. A successful \<open>Redeem\<close> leaves the caller with no gas: what it burned is the
  caller's whole gas, and that is the sum of the first burn
  \<open>5 * SloadGas + SstoreSetGas + RedeemScheduledGasCost ticketId ticketId 0 0 caller\<close>,
  the second burn \<open>SloadGas * WordsForBytes sizeBytes\<close>, and the gas \<open>g\<close> that was left
  when the event was emitted, which the final burn takes in full. The gas amount carried
  by the one redeem-scheduled event is that same \<open>g\<close>. The two first amounts are those
  of the source's \<^verbatim>\<open>uint64\<close> arithmetic; the sum is one of natural numbers.
\<close>

theorem Redeem_gas_accounting:
  assumes "Redeem p con c evm ticketId = (Inr rid, c', evm')"
  shows "\<exists>t seq g. tickets (state c) ticketId = Some t
     \<and> logs evm' = logs evm @ [RedeemScheduled ticketId rid seq g (caller c)]
     \<and> g = gasLeft c
           - (5 * SloadGas p + SstoreSetGas p + RedeemScheduledGasCost con ticketId ticketId 0 0 (caller c))
           - SloadGas p * WordsForBytes (sizeBytes t)
     \<and> gasLeft c' = 0
     \<and> unat (gasLeft c) - unat (gasLeft c') =
          unat (5 * SloadGas p + SstoreSetGas p + RedeemScheduledGasCost con ticketId ticketId 0 0 (caller c))
          + unat (SloadGas p * WordsForBytes (sizeBytes t)) + unat g"
proof -
  from Redeem_success [OF assms] obtain t where
        t: "tickets (state c) ticketId = Some t"
    and a: "\<not> gasLeft c < 5 * SloadGas p + SstoreSetGas p + RedeemScheduledGasCost con ticketId ticketId 0 0 (caller c)"
    and b: "\<not> gasLeft c - (5 * SloadGas p + SstoreSetGas p + RedeemScheduledGasCost con ticketId ticketId 0 0 (caller c))
           < SloadGas p * WordsForBytes (sizeBytes t)"
    and z: "gasLeft c' = 0"
    and e: "evm' = evm\<lparr>logs := logs evm @ [RedeemScheduled ticketId rid (numTries t + 1)
          (gasLeft c - (5 * SloadGas p + SstoreSetGas p + RedeemScheduledGasCost con ticketId ticketId 0 0 (caller c))
             - SloadGas p * WordsForBytes (sizeBytes t)) (caller c)]\<rparr>"
    by blast
  from e have l: "logs evm' = logs evm @ [RedeemScheduled ticketId rid (numTries t + 1)
          (gasLeft c - (5 * SloadGas p + SstoreSetGas p + RedeemScheduledGasCost con ticketId ticketId 0 0 (caller c))
             - SloadGas p * WordsForBytes (sizeBytes t)) (caller c)]"
    by simp
  from unat_sub_twice [OF a b] z
  have s: "unat (gasLeft c) - unat (gasLeft c') =
          unat (5 * SloadGas p + SstoreSetGas p + RedeemScheduledGasCost con ticketId ticketId 0 0 (caller c))
          + unat (SloadGas p * WordsForBytes (sizeBytes t))
          + unat (gasLeft c
           - (5 * SloadGas p + SstoreSetGas p + RedeemScheduledGasCost con ticketId ticketId 0 0 (caller c))
           - SloadGas p * WordsForBytes (sizeBytes t))"
    by simp
  from t l z s show ?thesis by blast
qed

theorem Redeem_gas_accounting_witness:
  "Redeem scenario_params scenario_con (scenario_ctx 1 50000 []) (scenario_evm 900) 7 =
     (Inr 129127208515966861313, \<lparr>caller = 1, gasLeft = 0, state = once_redeemed_state\<rparr>,
      once_redeemed_evm)
   \<and> (\<exists>t seq g. tickets (state (scenario_ctx 1 50000 [])) 7 = Some t
     \<and> logs once_redeemed_evm = logs (scenario_evm 900)
          @ [RedeemScheduled 7 129127208515966861313 seq g (caller (scenario_ctx 1 50000 []))]
     \<and> g = gasLeft (scenario_ctx 1 50000 [])
           - (5 * SloadGas scenario_params + SstoreSetGas scenario_params
              + RedeemScheduledGasCost scenario_con 7 7 0 0 (caller (scenario_ctx 1 50000 [])))
           - SloadGas scenario_params * WordsForBytes (sizeBytes t)
     \<and> gasLeft \<lparr>caller = 1, gasLeft = 0, state = once_redeemed_state\<rparr> = 0
     \<and> unat (gasLeft (scenario_ctx 1 50000 []))
         - unat (gasLeft \<lparr>caller = 1, gasLeft = 0, state = once_redeemed_state\<rparr>) =
          unat (5 * SloadGas scenario_params + SstoreSetGas scenario_params
                + RedeemScheduledGasCost scenario_con 7 7 0 0 (caller (scenario_ctx 1 50000 [])))
          + unat (SloadGas scenario_params * WordsForBytes (sizeBytes t)) + unat g)
   \<and> unat (gasLeft (scenario_ctx 1 50000 [])) = 26000 + 3200 + 20800
   \<and> 5 * SloadGas scenario_params + SstoreSetGas scenario_params
        + RedeemScheduledGasCost scenario_con 7 7 0 0 (caller (scenario_ctx 1 50000 [])) = 26000
   \<and> SloadGas scenario_params * WordsForBytes (sizeBytes scenario_ticket) = 3200"
proof -
  have a: "unat (gasLeft (scenario_ctx 1 50000 [])) = 26000 + 3200 + 20800"
    by (simp add: scenario_defs)
  have b: "5 * SloadGas scenario_params + SstoreSetGas scenario_params
        + RedeemScheduledGasCost scenario_con 7 7 0 0 (caller (scenario_ctx 1 50000 [])) = 26000"
    by (simp add: scenario_defs)
  have c: "SloadGas scenario_params * WordsForBytes (sizeBytes scenario_ticket) = 3200"
    by (simp add: scenario_defs WordsForBytes_100)
  from Redeem_run Redeem_gas_accounting [OF Redeem_run] a b c show ?thesis by (intro conjI)
qed

text \<open>
  Claim C5. A successful \<open>Redeem\<close> of a stored ticket changes the ticket store at that
  ticket only, and there only \<open>numTries\<close>, which goes up by one: timeout, beneficiary
  and size are as before (and the ticket was unexpired). It appends exactly one event
  to the log, a redeem-scheduled event whose sequence number is the ticket's
  \<open>numTries\<close> before the call plus one.
\<close>

theorem Redeem_frame:
  assumes "tickets (state c) ticketId = Some t"
    and "Redeem p con c evm ticketId = (Inr rid, c', evm')"
  shows "tickets (state c') = (tickets (state c))(ticketId \<mapsto> t\<lparr>numTries := numTries t + 1\<rparr>)
     \<and> (\<exists>t'. tickets (state c') ticketId = Some t' \<and> timeout t' = timeout t
            \<and> beneficiary t' = beneficiary t \<and> sizeBytes t' = sizeBytes t
            \<and> numTries t' = numTries t + 1)
     \<and> \<not> timeout t < Time evm
     \<and> (\<exists>g. logs evm' = logs evm @ [RedeemScheduled ticketId rid (numTries t + 1) g (caller c)])"
proof -
  from Redeem_success [OF assms(2)] obtain t0 where
        t0: "tickets (state c) ticketId = Some t0"
    and live: "\<not> timeout t0 < Time evm"
    and st: "state c' = (state c)\<lparr>tickets := (tickets (state c))(ticketId \<mapsto> t0\<lparr>numTries := numTries t0 + 1\<rparr>)\<rparr>"
    and e: "evm' = evm\<lparr>logs := logs evm @ [RedeemScheduled ticketId rid (numTries t0 + 1)
          (gasLeft c - (5 * SloadGas p + SstoreSetGas p + RedeemScheduledGasCost con ticketId ticketId 0 0 (caller c))
             - SloadGas p * WordsForBytes (sizeBytes t0)) (caller c)]\<rparr>"
    by blast
  from t0 assms(1) have eq: "t0 = t" by simp
  have 1: "tickets (state c') = (tickets (state c))(ticketId \<mapsto> t\<lparr>numTries := numTries t + 1\<rparr>)"
    by (simp add: st eq)
  then have 2: "\<exists>t'. tickets (state c') ticketId = Some t' \<and> timeout t' = timeout t
            \<and> beneficiary t' = beneficiary t \<and> sizeBytes t' = sizeBytes t
            \<and> numTries t' = numTries t + 1"
    by simp
  from e eq have 3: "\<exists>g. logs evm' = logs evm @ [RedeemScheduled ticketId rid (numTries t + 1) g (caller c)]"
    by simp
  from 1 2 3 live eq show ?thesis by blast
qed

theorem Redeem_frame_witness:
  "tickets (state (scenario_ctx 1 50000 [])) 7 = Some scenario_ticket
   \<and> Redeem scenario_params scenario_con (scenario_ctx 1 50000 []) (scenario_evm 900) 7 =
     (Inr 129127208515966861313, \<lparr>caller = 1, gasLeft = 0, state = once_redeemed_state\<rparr>,
      once_redeemed_evm)
   \<and> tickets once_redeemed_state 7 = Some (scenario_ticket\<lparr>numTries := 1\<rparr>)
   \<and> logs once_redeemed_evm = logs (scenario_evm 900) @ [RedeemScheduled 7 129127208515966861313 1 20800 1]
   \<and> (\<exists>g. logs once_redeemed_evm = logs (scenario_evm 900)
          @ [RedeemScheduled 7 129127208515966861313 (numTries scenario_ticket + 1) g
               (caller (scenario_ctx 1 50000 []))])"
proof -
  have h: "tickets (state (scenario_ctx 1 50000 [])) 7 = Some scenario_ticket"
    by (simp add: scenario_defs)
  have a: "tickets once_redeemed_state 7 = Some (scenario_ticket\<lparr>numTries := 1\<rparr>)"
    by (simp add: redeemed_defs)
  have b: "logs once_redeemed_evm = logs (scenario_evm 900) @ [RedeemScheduled 7 129127208515966861313 1 20800 1]"
    by (simp add: redeemed_defs scenario_defs)
  from Redeem_frame [OF h Redeem_run]
  have c: "\<exists>g. logs once_redeemed_evm = logs (scenario_evm 900)
          @ [RedeemScheduled 7 129127208515966861313 (numTries scenario_ticket + 1) g
               (caller (scenario_ctx 1 50000 []))]"
    by blast
  from h Redeem_run a b c show ?thesis by (intro conjI)
qed

text \<open>
  Two redeems in a row (the subject of claim C6, which this does not settle). For a
  ticket with \<open>numTries = 0\<close>, a successful \<open>Redeem\<close> followed by a second successful
  \<open>Redeem\<close> on the state the first one left (by any caller, with any gas, at any time)
  emit sequence numbers 1 and 2, and each emitted \<open>redeemTxId\<close> is
  \<open>TxIdForRedeemAttempt ticketId sequenceNum\<close>: a function of the ticket identifier and
  the sequence number alone. The two concatenations hashed are different, so the two
  identifiers differ exactly when the hash does not collide on them. Whether it does is
  a property of the hash function, which is outside the source and a parameter here.
\<close>

lemma Redeem_twice:
  assumes "tickets (state c1) ticketId = Some t" and "numTries t = 0"
    and "Redeem p con c1 evm1 ticketId = (Inr rid1, c1', evm1')"
    and "state c2 = state c1'"
    and "Redeem p con c2 evm2 ticketId = (Inr rid2, c2', evm2')"
  shows "(\<exists>g1. logs evm1' = logs evm1 @ [RedeemScheduled ticketId rid1 1 g1 (caller c1)])
     \<and> (\<exists>g2. logs evm2' = logs evm2 @ [RedeemScheduled ticketId rid2 2 g2 (caller c2)])
     \<and> rid1 = TxIdForRedeemAttempt p ticketId 1
     \<and> rid2 = TxIdForRedeemAttempt p ticketId 2
     \<and> (word_cat ticketId (1 :: uint64) :: 320 word) \<noteq> word_cat ticketId (2 :: uint64)
     \<and> (rid1 \<noteq> rid2) =
         (Hash p (word_cat ticketId (1 :: uint64)) \<noteq> Hash p (word_cat ticketId (2 :: uint64)))"
proof -
  from Redeem_success [OF assms(3)] assms(1,2)
  have r1: "rid1 = TxIdForRedeemAttempt p ticketId 1"
    and s1: "state c1' = (state c1)\<lparr>tickets := (tickets (state c1))(ticketId \<mapsto> t\<lparr>numTries := 1\<rparr>)\<rparr>"
    and l1: "\<exists>g1. logs evm1' = logs evm1 @ [RedeemScheduled ticketId rid1 1 g1 (caller c1)]"
    by auto
  from s1 assms(4) have t2: "tickets (state c2) ticketId = Some (t\<lparr>numTries := 1\<rparr>)"
    by simp
  from Redeem_success [OF assms(5)] t2
  have r2: "rid2 = TxIdForRedeemAttempt p ticketId 2"
    and l2: "\<exists>g2. logs evm2' = logs evm2 @ [RedeemScheduled ticketId rid2 2 g2 (caller c2)]"
    by auto
  have apart: "(word_cat ticketId (1 :: uint64) :: 320 word) \<noteq> word_cat ticketId (2 :: uint64)"
    using word_cat_seq_inj [of ticketId 1 2] by auto
  from r1 r2 have d: "(rid1 \<noteq> rid2) =
         (Hash p (word_cat ticketId (1 :: uint64)) \<noteq> Hash p (word_cat ticketId (2 :: uint64)))"
    by (simp add: TxIdForRedeemAttempt_def)
  from l1 l2 r1 r2 apart d show ?thesis by (intro conjI)
qed

text \<open>On the scenario, whose hash keeps the two inputs apart, the identifiers differ.\<close>

lemma Redeem_twice_on_scenario:
  "tickets (state (scenario_ctx 1 50000 [])) 7 = Some scenario_ticket
   \<and> numTries scenario_ticket = 0
   \<and> Redeem scenario_params scenario_con (scenario_ctx 1 50000 []) (scenario_evm 900) 7 =
     (Inr 129127208515966861313, \<lparr>caller = 1, gasLeft = 0, state = once_redeemed_state\<rparr>,
      once_redeemed_evm)
   \<and> state second_ctx = state \<lparr>caller = 1, gasLeft = 0, state = once_redeemed_state\<rparr>
   \<and> Redeem scenario_params scenario_con second_ctx once_redeemed_evm 7 =
     (Inr 129127208515966861314,
      \<lparr>caller = 2, gasLeft = 0,
       state = (scenario_state [])\<lparr>tickets :=
          (tickets (scenario_state []))(7 \<mapsto> scenario_ticket\<lparr>numTries := 2\<rparr>)\<rparr>\<rparr>,
      \<lparr>Time = 900, logs = [RedeemScheduled 7 129127208515966861313 1 20800 1,
                           RedeemScheduled 7 129127208515966861314 2 10800 2]\<rparr>)
   \<and> (129127208515966861313 :: bytes32) = TxIdForRedeemAttempt scenario_params 7 1
   \<and> (129127208515966861314 :: bytes32) = TxIdForRedeemAttempt scenario_params 7 2
   \<and> Hash scenario_params (word_cat (7 :: bytes32) (1 :: uint64))
        \<noteq> Hash scenario_params (word_cat (7 :: bytes32) (2 :: uint64))"
proof -
  have h1: "tickets (state (scenario_ctx 1 50000 [])) 7 = Some scenario_ticket"
    by (simp add: scenario_defs)
  have h2: "numTries scenario_ticket = 0"
    by (simp add: scenario_defs)
  have h4: "state second_ctx = state \<lparr>caller = 1, gasLeft = 0, state = once_redeemed_state\<rparr>"
    by (simp add: redeemed_defs)
  note w = Redeem_twice [OF h1 h2 Redeem_run h4 Redeem_run_second]
  from w have a: "(129127208515966861313 :: bytes32) = TxIdForRedeemAttempt scenario_params 7 1"
    and b: "(129127208515966861314 :: bytes32) = TxIdForRedeemAttempt scenario_params 7 2"
    by blast+
  have ne: "(129127208515966861313 :: bytes32) \<noteq> 129127208515966861314"
    by simp
  from w have "((129127208515966861313 :: bytes32) \<noteq> 129127208515966861314) =
         (Hash scenario_params (word_cat (7 :: bytes32) (1 :: uint64))
            \<noteq> Hash scenario_params (word_cat (7 :: bytes32) (2 :: uint64)))"
    by blast
  with ne have c: "Hash scenario_params (word_cat (7 :: bytes32) (1 :: uint64))
        \<noteq> Hash scenario_params (word_cat (7 :: bytes32) (2 :: uint64))"
    by blast
  from h1 h2 Redeem_run h4 Redeem_run_second a b c show ?thesis by (intro conjI)
qed

text \<open>
  With a hash that collides, the same two calls succeed with sequence numbers 1 and 2
  and emit one and the same identifier: being a function of the ticket identifier and
  the sequence number does not by itself make the identifiers distinct.
\<close>

lemma colliding_run:
  "Redeem colliding_params scenario_con (scenario_ctx 1 50000 []) (scenario_evm 900) 7 =
     (Inr 0, \<lparr>caller = 1, gasLeft = 0, state = once_redeemed_state\<rparr>, colliding_evm)"
  by (simp add: Redeem_def colliding_params_def colliding_evm_def scenario_defs redeemed_defs
        store_defs WordsForBytes_100)

lemma colliding_run_second:
  "Redeem colliding_params scenario_con second_ctx colliding_evm 7 =
     (Inr 0,
      \<lparr>caller = 2, gasLeft = 0,
       state = (scenario_state [])\<lparr>tickets :=
          (tickets (scenario_state []))(7 \<mapsto> scenario_ticket\<lparr>numTries := 2\<rparr>)\<rparr>\<rparr>,
      \<lparr>Time = 900, logs = [RedeemScheduled 7 0 1 20800 1, RedeemScheduled 7 0 2 10800 2]\<rparr>)"
  by (simp add: Redeem_def colliding_params_def colliding_evm_def scenario_defs redeemed_defs
        store_defs WordsForBytes_100)

lemma Redeem_twice_colliding_hash:
  "tickets (state (scenario_ctx 1 50000 [])) 7 = Some scenario_ticket
   \<and> numTries scenario_ticket = 0
   \<and> Redeem colliding_params scenario_con (scenario_ctx 1 50000 []) (scenario_evm 900) 7 =
     (Inr 0, \<lparr>caller = 1, gasLeft = 0, state = once_redeemed_state\<rparr>, colliding_evm)
   \<and> state second_ctx = once_redeemed_state
   \<and> Redeem colliding_params scenario_con second_ctx colliding_evm 7 =
     (Inr 0,
      \<lparr>caller = 2, gasLeft = 0,
       state = (scenario_state [])\<lparr>tickets :=
          (tickets (scenario_state []))(7 \<mapsto> scenario_ticket\<lparr>numTries := 2\<rparr>)\<rparr>\<rparr>,
      \<lparr>Time = 900, logs = [RedeemScheduled 7 0 1 20800 1, RedeemScheduled 7 0 2 10800 2]\<rparr>)
   \<and> TxIdForRedeemAttempt colliding_params 7 1 = TxIdForRedeemAttempt colliding_params 7 2"
proof -
  have h1: "tickets (state (scenario_ctx 1 50000 [])) 7 = Some scenario_ticket"
    by (simp add: scenario_defs)
  have h2: "numTries scenario_ticket = 0"
    by (simp add: scenario_defs)
  have h4: "state second_ctx = once_redeemed_state"
    by (simp add: redeemed_defs)
  have e: "TxIdForRedeemAttempt colliding_params 7 1 = TxIdForRedeemAttempt colliding_params 7 2"
    by (simp add: TxIdForRedeemAttempt_def colliding_params_def)
  from h1 h2 colliding_run h4 colliding_run_second e show ?thesis by (intro conjI)
qed



end
